theory Spec2Isabelle
  imports Complex_Main "HOL-Library.Sublist"
begin

section \<open>Python values used by transcribe\_demo.py\<close>

text \<open>
  A Python \<open>str\<close> is a sequence of Unicode code points, a \<open>bytes\<close> object a sequence of
  8-bit values. Literals of the source are ASCII and are written with \<open>lit\<close>.
\<close>

type_synonym codepoint = nat
type_synonym pystr = "codepoint list"
type_synonym bytes = "char list"

definition lit :: "string \<Rightarrow> pystr" where
  "lit s = map (of_char :: char \<Rightarrow> nat) s"

text \<open>\<open>str.isspace\<close> of one code point: the whitespace table of CPython.\<close>

definition isspace :: "codepoint \<Rightarrow> bool" where
  "isspace c =
     ((9 \<le> c \<and> c \<le> 13) \<or> (28 \<le> c \<and> c \<le> 32) \<or> c = 133 \<or> c = 160 \<or> c = 5760 \<or>
      (8192 \<le> c \<and> c \<le> 8202) \<or> c = 8232 \<or> c = 8233 \<or> c = 8239 \<or> c = 8287 \<or>
      c = 12288)"

text \<open>\<open>s.strip()\<close>: leading and trailing whitespace removed.\<close>

definition strip :: "pystr \<Rightarrow> pystr" where
  "strip s = rev (dropWhile isspace (rev (dropWhile isspace s)))"

text \<open>\<open>sep.join(xs)\<close>.\<close>

fun join :: "pystr \<Rightarrow> pystr list \<Rightarrow> pystr" where
  "join sep [] = []"
| "join sep [x] = x"
| "join sep (x # y # ys) = x @ sep @ join sep (y # ys)"

text \<open>\<open>b''.join(xs)\<close> on byte strings.\<close>

definition bytes_join :: "bytes list \<Rightarrow> bytes" where
  "bytes_join xs = concat xs"

section \<open>The audio chunk queue\<close>

text \<open>
  \<open>queue.Queue\<close> as the list of its items, oldest first. \<open>put\<close> appends at the back,
  \<open>get_nowait\<close> removes the front item or raises \<open>Empty\<close>. The functions below describe
  the consumer's view at a moment when the producer does not run.
\<close>

type_synonym queue = "bytes list"

datatype queue_error = Empty

definition put :: "queue \<Rightarrow> bytes \<Rightarrow> queue" where
  "put q x = q @ [x]"

definition empty :: "queue \<Rightarrow> bool" where
  "empty q = (q = [])"

definition get_nowait :: "queue \<Rightarrow> queue_error + (bytes \<times> queue)" where
  "get_nowait q = (case q of [] \<Rightarrow> Inl Empty | x # q' \<Rightarrow> Inr (x, q'))"

text \<open>
  The loop of \<open>process_audio_queue\<close>: the state is the queue and \<open>audio_data_list\<close>.
  \<^verbatim>\<open>
    while not data_queue.empty():
        try:
            audio_data_list.append(data_queue.get_nowait())
        except Empty:
            break
  \<close>
\<close>

function drain_loop :: "queue \<Rightarrow> bytes list \<Rightarrow> queue \<times> bytes list" where
  "drain_loop q audio_data_list =
     (if \<not> empty q then
        (case get_nowait q of
           Inl Empty \<Rightarrow> (q, audio_data_list)
         | Inr (x, q') \<Rightarrow> drain_loop q' (audio_data_list @ [x]))
      else (q, audio_data_list))"
  by pat_completeness auto
termination
  by (relation "measure (\<lambda>(q, l). length q)")
     (auto simp: get_nowait_def split: list.splits)

declare drain_loop.simps [simp del]

text \<open>
  \<open>process_audio_queue\<close> returns the queue as the call leaves it and the call's result:
  \<open>None\<close> for Python's \<open>None\<close>.
  \<^verbatim>\<open>return b''.join(audio_data_list) if audio_data_list else None\<close>
\<close>

definition process_audio_queue :: "queue \<Rightarrow> queue \<times> bytes option" where
  "process_audio_queue data_queue =
     (case drain_loop data_queue [] of
        (q', audio_data_list) \<Rightarrow>
          (q', if audio_data_list \<noteq> [] then Some (bytes_join audio_data_list) else None))"

section \<open>Exceptions, outcomes and floats\<close>

text \<open>
  An exception is its class and \<open>str(e)\<close>. The classes are the ones the source names in its
  \<open>except\<close> clauses and \<open>raise\<close> statements, \<open>KeyboardInterrupt\<close> (the only one
  here outside \<open>Exception\<close>) and \<open>OtherException\<close> for any other subclass of
  \<open>Exception\<close> a library call may raise.
\<close>

datatype exc_class =
    ValueError | RuntimeError | OSError | FileNotFoundError | SubprocessError
  | OverflowError | IndexError | KeyboardInterrupt | OtherException

datatype py_exception = Exc exc_class pystr

text \<open>\<open>except Exception\<close>, and \<open>except OSError\<close> (\<open>IOError\<close> is the same class).\<close>

definition catches_Exception :: "exc_class \<Rightarrow> bool" where
  "catches_Exception c = (c \<noteq> KeyboardInterrupt)"

definition catches_OSError :: "exc_class \<Rightarrow> bool" where
  "catches_OSError c = (c = OSError \<or> c = FileNotFoundError)"

text \<open>
  What a call does: it returns, raises, or ends the process through \<open>sys.exit\<close> where no
  handler of the source catches \<open>SystemExit\<close>.
\<close>

datatype 'a outcome = Return 'a | Raise py_exception | SysExit int

text \<open>
  A Python \<open>float\<close>: a finite value, an infinity or a NaN. Only comparisons with zero are
  computed on floats here, and those are exact.
\<close>

datatype pyfloat = Finite real | PosInf | NegInf | NaN

fun float_le_zero :: "pyfloat \<Rightarrow> bool" where
  "float_le_zero (Finite r) = (r \<le> 0)"
| "float_le_zero NegInf = True"
| "float_le_zero PosInf = False"
| "float_le_zero NaN = False"

section \<open>Configuration and its validation\<close>

text \<open>The \<open>argparse.Namespace\<close> that \<open>parse_args\<close> returns.\<close>

record args =
  model :: pystr
  non_english :: bool
  energy_threshold :: int
  record_timeout :: pyfloat
  phrase_timeout :: pyfloat
  output_file :: "pystr option"
  show_confidence :: bool
  default_microphone :: "pystr option"

text \<open>
  \<^verbatim>\<open>
    if args.energy_threshold < 0:
        raise ValueError("Energy threshold must be non-negative")
    if args.record_timeout <= 0:
        raise ValueError("Record timeout must be positive")
    if args.phrase_timeout <= 0:
        raise ValueError("Phrase timeout must be positive")
  \<close>
\<close>

definition validate_arguments :: "args \<Rightarrow> py_exception + unit" where
  "validate_arguments a =
     (if energy_threshold a < 0 then
        Inl (Exc ValueError (lit ''Energy threshold must be non-negative''))
      else if float_le_zero (record_timeout a) then
        Inl (Exc ValueError (lit ''Record timeout must be positive''))
      else if float_le_zero (phrase_timeout a) then
        Inl (Exc ValueError (lit ''Phrase timeout must be positive''))
      else Inr ())"

section \<open>Effects\<close>

text \<open>
  The calls that reach outside the program, in the order the program makes them.
  \<open>Print s e\<close> is one call \<open>print(s, end=e)\<close>; \<open>Run cmd shell\<close> one call of
  \<open>subprocess.run\<close>; \<open>WriteFile path s\<close> the file \<open>path\<close> opened with mode \<open>'w'\<close> and
  \<open>s\<close> written to it.
\<close>

datatype event =
    Print pystr pystr
  | LogInfo pystr
  | LogWarning pystr
  | LogError pystr
  | Run "pystr list" bool
  | OpenMicrophone "nat option"
  | LoadModel pystr
  | AdjustForAmbientNoise
  | ListenInBackground pyfloat
  | StopListening
  | Transcribe "real list"
  | Sleep
  | WriteFile pystr pystr

definition newline :: pystr where
  "newline = [10]"

text \<open>The characters one event puts on standard output.\<close>

fun stdout_of :: "event \<Rightarrow> pystr" where
  "stdout_of (Print s e) = s @ e"
| "stdout_of _ = []"

text \<open>
  What lies outside the repository: the platform, the audio library, the model library and
  \<open>datetime.timedelta\<close>. \<open>microphone_init i\<close> is the outcome of constructing
  \<open>sr.Microphone\<close> with device index \<open>i\<close>, \<open>load_model n\<close> of \<open>whisper.load_model(n)\<close>,
  \<open>source_enter\<close> of entering \<open>with source\<close>, \<open>timedelta x\<close> of
  \<open>timedelta(seconds=x)\<close> as a number of microseconds, \<open>format_confidence ps\<close> the text
  of \<open>(1 - np.mean(ps)) * 100\<close> under the format \<open>.1f\<close>, \<open>initial_files\<close> the
  text files on disk when the program starts; \<open>None\<close> is a call that returns normally.
\<close>

record world =
  os_name :: pystr
  platform :: pystr
  list_microphone_names :: "pystr list"
  microphone_init :: "nat option \<Rightarrow> py_exception option"
  load_model :: "pystr \<Rightarrow> py_exception option"
  source_enter :: "py_exception option"
  adjust_for_ambient_noise :: "py_exception option"
  timedelta :: "pyfloat \<Rightarrow> py_exception + int"
  format_confidence :: "pyfloat list \<Rightarrow> pystr"
  initial_files :: "pystr \<Rightarrow> pystr option"

definition CONSOLE_CLEAR_FALLBACK_LINES :: nat where
  "CONSOLE_CLEAR_FALLBACK_LINES = 50"

text \<open>
  \<open>clear_console\<close>, given the outcome of its \<open>subprocess.run\<close> call (\<open>None\<close>: the
  call returns); the result is the exception that leaves \<open>clear_console\<close>, if any.
  \<^verbatim>\<open>
    try:
        if os.name == 'nt':
            subprocess.run(['cls'], shell=True, check=True, capture_output=True)
        else:
            subprocess.run(['clear'], check=True, capture_output=True)
    except (subprocess.SubprocessError, FileNotFoundError):
        print('\n' * CONSOLE_CLEAR_FALLBACK_LINES)
  \<close>
\<close>

definition clear_console :: "world \<Rightarrow> py_exception option \<Rightarrow> event list \<times> py_exception option" where
  "clear_console w run_result =
     (let call = (if os_name w = lit ''nt'' then Run [lit ''cls''] True
                  else Run [lit ''clear''] False)
      in case run_result of
           None \<Rightarrow> ([call], None)
         | Some (Exc c e) \<Rightarrow>
             if c = SubprocessError \<or> c = FileNotFoundError then
               ([call, Print (concat (replicate CONSOLE_CLEAR_FALLBACK_LINES newline)) newline],
                None)
             else ([call], Some (Exc c e)))"

text \<open>
  \<^verbatim>\<open>
    clear_console()
    for line in transcription:
        if line.strip():
            print(line)
    print('', end='', flush=True)
  \<close>
\<close>

definition display_transcription ::
  "world \<Rightarrow> py_exception option \<Rightarrow> pystr list \<Rightarrow> event list \<times> py_exception option" where
  "display_transcription w run_result lines =
     (case clear_console w run_result of
        (ev, None) \<Rightarrow>
          (ev @ map (\<lambda>line. Print line newline) (filter (\<lambda>line. strip line \<noteq> []) lines)
              @ [Print [] []],
           None)
      | (ev, Some e) \<Rightarrow> (ev, Some e))"

section \<open>Microphone and model\<close>

text \<open>
  The search loop of \<open>get_microphone_source\<close> on Linux: the first device whose name
  contains \<open>mic_name\<close> is opened; the microphone is identified by its device index.
  \<^verbatim>\<open>
    for index, name in enumerate(sr.Microphone.list_microphone_names()):
        if mic_name in name:
            try:
                return sr.Microphone(sample_rate=SAMPLE_RATE, device_index=index)
            except OSError as e:
                raise RuntimeError(f"Failed to initialize microphone '{name}': {e}")
    raise ValueError(f"Microphone '{mic_name}' not found")
  \<close>
\<close>

fun find_microphone ::
  "world \<Rightarrow> pystr \<Rightarrow> nat \<Rightarrow> pystr list \<Rightarrow> event list \<times> nat option outcome" where
  "find_microphone w mic_name index [] =
     ([], Raise (Exc ValueError (lit ''Microphone '' @ [39] @ mic_name @ [39] @ lit '' not found'')))"
| "find_microphone w mic_name index (name # names) =
     (if sublist mic_name name then
        (case microphone_init w (Some index) of
           None \<Rightarrow> ([OpenMicrophone (Some index)], Return (Some index))
         | Some (Exc c e) \<Rightarrow>
             ([OpenMicrophone (Some index)],
              if catches_OSError c then
                Raise (Exc RuntimeError
                  (lit ''Failed to initialize microphone '' @ [39] @ name @ [39] @ lit '': '' @ e))
              else Raise (Exc c e)))
      else find_microphone w mic_name (Suc index) names)"

definition get_microphone_source ::
  "world \<Rightarrow> pystr option \<Rightarrow> event list \<times> nat option outcome" where
  "get_microphone_source w mic_name =
     (if sublist (lit ''linux'') (platform w) then
        (case mic_name of
           None \<Rightarrow>
             (Print (lit ''Available microphone devices are: '') newline #
              map (\<lambda>name. Print (lit ''Microphone with name '' @ [34] @ name @ [34] @ lit '' found'') newline)
                (list_microphone_names w),
              SysExit 0)
         | Some n \<Rightarrow>
             if n = [] \<or> n = lit ''list'' then
               (Print (lit ''Available microphone devices are: '') newline #
                map (\<lambda>name. Print (lit ''Microphone with name '' @ [34] @ name @ [34] @ lit '' found'') newline)
                  (list_microphone_names w),
                SysExit 0)
             else find_microphone w n 0 (list_microphone_names w))
      else
        (case microphone_init w None of
           None \<Rightarrow> ([OpenMicrophone None], Return None)
         | Some (Exc c e) \<Rightarrow>
             ([OpenMicrophone None],
              if catches_OSError c then
                Raise (Exc RuntimeError (lit ''Failed to initialize default microphone: '' @ e))
              else Raise (Exc c e))))"

text \<open>
  \<open>load_whisper_model\<close>; the loaded model is identified by the name it was loaded under.
  \<^verbatim>\<open>
    model = model_name
    if model_name != "large" and not non_english:
        model = model + ".en"
    try:
        logging.info(f"Loading Whisper model: {model}")
        audio_model = whisper.load_model(model)
        logging.info("Model loaded successfully")
        return audio_model
    except Exception as e:
        raise RuntimeError(f"Error loading model '{model}': {e}")
  \<close>
\<close>

definition load_whisper_model ::
  "world \<Rightarrow> pystr \<Rightarrow> bool \<Rightarrow> event list \<times> pystr outcome" where
  "load_whisper_model w model_name non_english_flag =
     (let m = (if model_name \<noteq> lit ''large'' \<and> \<not> non_english_flag
               then model_name @ lit ''.en'' else model_name)
      in case load_model w m of
           None \<Rightarrow>
             ([LogInfo (lit ''Loading Whisper model: '' @ m), LoadModel m,
               LogInfo (lit ''Model loaded successfully'')],
              Return m)
         | Some (Exc c e) \<Rightarrow>
             ([LogInfo (lit ''Loading Whisper model: '' @ m), LoadModel m],
              if catches_Exception c then
                Raise (Exc RuntimeError
                  (lit ''Error loading model '' @ [39] @ m @ [39] @ lit '': '' @ e))
              else Raise (Exc c e)))"

section \<open>The main loop\<close>

text \<open>
  The variables of \<open>main\<close> that the loop reads and writes, and the text files on disk.
  \<open>phrase_time\<close> is a \<open>datetime\<close> counted in microseconds, or \<open>None\<close>.
\<close>

record state =
  phrase_time :: "int option"
  data_queue :: queue
  transcription :: "pystr list"
  files :: "pystr \<Rightarrow> pystr option"

text \<open>The dictionary \<open>audio_model.transcribe\<close> returns: its \<open>'text'\<close>, and under
  \<open>'segments'\<close> (when the key is there) each segment's \<open>seg.get('no_speech_prob', 0)\<close>.\<close>

record whisper_result =
  result_text :: pystr
  result_segments :: "pyfloat list option"

text \<open>
  Writing the output file either succeeds or raises; a failed attempt leaves the file with
  some contents of the file system's choosing (or absent).
\<close>

datatype write_result = Written | WriteFailed py_exception "pystr option"

text \<open>
  What the outside does during one iteration of \<open>while True\<close>: the chunks
  \<open>record_callback\<close> has put on the queue since the previous iteration, the clock, and the
  outcomes of the calls the iteration may make. An interrupt from the keyboard is the
  exception \<open>KeyboardInterrupt\<close> raised by one of the blocking calls.
\<close>

record poll =
  pushed :: "bytes list"
  utcnow :: int
  transcribe_outcome :: "py_exception + whisper_result"
  subprocess_outcome :: "py_exception option"
  write_outcome :: write_result
  sleep_outcome :: "py_exception option"

text \<open>
  \<open>np.frombuffer(audio_data, dtype=np.int16).astype(np.float32) / 32768.0\<close>: the bytes
  read as 16-bit signed samples (low byte first), each divided by \<open>32768\<close>, which is exact
  in \<open>float32\<close>; \<open>np.frombuffer\<close> raises \<open>ValueError\<close> on an odd number of bytes.
\<close>

fun int16_samples :: "bytes \<Rightarrow> int list" where
  "int16_samples (lo # hi # rest) =
     (let u = of_char lo + 256 * of_char hi
      in (if u < 32768 then u else u - 65536)) # int16_samples rest"
| "int16_samples _ = []"

definition AUDIO_NORMALIZATION_FACTOR :: real where
  "AUDIO_NORMALIZATION_FACTOR = 32768"

definition convert_audio_to_numpy :: "bytes \<Rightarrow> py_exception + real list" where
  "convert_audio_to_numpy audio_data =
     (if odd (length audio_data) then
        Inl (Exc ValueError (lit ''buffer size must be a multiple of element size''))
      else Inr (map (\<lambda>v. real_of_int v / AUDIO_NORMALIZATION_FACTOR) (int16_samples audio_data)))"

text \<open>
  The phrase boundary decision, from the previous \<open>phrase_time\<close> and \<open>now\<close>.
  \<^verbatim>\<open>
    phrase_complete = False
    if phrase_time and now - phrase_time > timedelta(seconds=args.phrase_timeout):
        phrase_complete = True
  \<close>
  A \<open>datetime\<close> is always true as a condition, so \<open>phrase_time and ...\<close> is false exactly
  for \<open>None\<close>, and then \<open>timedelta\<close> is not called.
\<close>

definition phrase_complete :: "world \<Rightarrow> args \<Rightarrow> int option \<Rightarrow> int \<Rightarrow> py_exception + bool" where
  "phrase_complete w a prev now =
     (case prev of
        None \<Rightarrow> Inr False
      | Some pt \<Rightarrow>
          (case timedelta w (phrase_timeout a) of
             Inl e \<Rightarrow> Inl e
           | Inr gap \<Rightarrow> Inr (now - pt > gap)))"

text \<open>
  \<^verbatim>\<open>
    if args.show_confidence and 'segments' in result:
        avg_confidence = np.mean([seg.get('no_speech_prob', 0) for seg in result['segments']])
        confidence_percentage = (1 - avg_confidence) * 100
        text = f"{text} [Confidence: {confidence_percentage:.1f}%]"
  \<close>
\<close>

definition format_text :: "world \<Rightarrow> args \<Rightarrow> whisper_result \<Rightarrow> pystr \<Rightarrow> pystr" where
  "format_text w a result t =
     (if show_confidence a then
        (case result_segments result of
           Some ps \<Rightarrow> t @ lit '' [Confidence: '' @ format_confidence w ps @ lit ''%]''
         | None \<Rightarrow> t)
      else t)"

text \<open>
  \<^verbatim>\<open>
    if phrase_complete:
        transcription.append(text)
    else:
        transcription[-1] = text
  \<close>
  The assignment raises \<open>IndexError\<close> on an empty list.
\<close>

definition update_transcription :: "bool \<Rightarrow> pystr list \<Rightarrow> pystr \<Rightarrow> py_exception + pystr list" where
  "update_transcription boundary lines t =
     (if boundary then Inr (lines @ [t])
      else if lines = [] then Inl (Exc IndexError (lit ''list assignment index out of range''))
      else Inr (lines[length lines - 1 := t]))"

text \<open>
  The body of both \<open>with open(args.output_file, 'w', encoding='utf-8') as f\<close> blocks:
  \<^verbatim>\<open>f.write('\n'.join(line for line in transcription if line.strip()))\<close>
  The result is the event, the files afterwards and the exception raised, if any.
\<close>

definition write_transcription ::
  "write_result \<Rightarrow> pystr \<Rightarrow> pystr list \<Rightarrow> (pystr \<Rightarrow> pystr option) \<Rightarrow>
   event list \<times> (pystr \<Rightarrow> pystr option) \<times> py_exception option" where
  "write_transcription wr path lines fs =
     (let content = join newline (filter (\<lambda>line. strip line \<noteq> []) lines)
      in case wr of
           Written \<Rightarrow> ([WriteFile path content], fs(path \<mapsto> content), None)
         | WriteFailed e left \<Rightarrow> ([WriteFile path content], fs(path := left), Some e))"

text \<open>
  The file sink of the loop.
  \<^verbatim>\<open>
    if args.output_file:
        try:
            with open(args.output_file, 'w', encoding='utf-8') as f:
                f.write(...)
        except IOError as e:
            logging.warning(f"Failed to write to output file: {e}")
  \<close>
\<close>

definition save_to_file ::
  "args \<Rightarrow> write_result \<Rightarrow> pystr list \<Rightarrow> (pystr \<Rightarrow> pystr option) \<Rightarrow>
   event list \<times> (pystr \<Rightarrow> pystr option) \<times> py_exception option" where
  "save_to_file a wr lines fs =
     (case output_file a of
        None \<Rightarrow> ([], fs, None)
      | Some path \<Rightarrow>
          if path = [] then ([], fs, None)
          else
            (case write_transcription wr path lines fs of
               (ev, fs', None) \<Rightarrow> (ev, fs', None)
             | (ev, fs', Some (Exc c e)) \<Rightarrow>
                 if catches_OSError c then
                   (ev @ [LogWarning (lit ''Failed to write to output file: '' @ e)], fs', None)
                 else (ev, fs', Some (Exc c e))))"

text \<open>
  The two handlers of the loop's \<open>try\<close>, applied to an exception raised in the body after
  the events \<open>ev\<close>, in state \<open>s\<close>.
  \<^verbatim>\<open>
    except KeyboardInterrupt:
        break
    except Exception as e:
        logging.error(f"Error during transcription: {e}")
        continue
  \<close>
\<close>

datatype control = Continue | Break

definition except_clause :: "event list \<Rightarrow> py_exception \<Rightarrow> state \<Rightarrow> event list \<times> control \<times> state" where
  "except_clause ev x s =
     (case x of
        Exc c e \<Rightarrow>
          if c = KeyboardInterrupt then (ev, Break, s)
          else (ev @ [LogError (lit ''Error during transcription: '' @ e)], Continue, s))"

text \<open>\<open>sleep(SLEEP_INTERVAL)\<close>, then the next iteration.\<close>

definition do_sleep :: "poll \<Rightarrow> state \<Rightarrow> event list \<times> control \<times> state" where
  "do_sleep p s =
     (case sleep_outcome p of
        None \<Rightarrow> ([Sleep], Continue, s)
      | Some e \<Rightarrow> except_clause [Sleep] e s)"

text \<open>
  The loop body from the transcription's result on (\<open>text = result['text'].strip()\<close> to the
  file sink): the events, the exception that leaves the block, if any, and the state.
\<close>

definition process_result ::
  "world \<Rightarrow> args \<Rightarrow> poll \<Rightarrow> bool \<Rightarrow> whisper_result \<Rightarrow> state \<Rightarrow>
   event list \<times> py_exception option \<times> state" where
  "process_result w a p boundary result s =
     (let t = strip (result_text result)
      in if t \<noteq> [] then
           (case update_transcription boundary (transcription s) (format_text w a result t) of
              Inl e \<Rightarrow> ([], Some e, s)
            | Inr lines \<Rightarrow>
                (case display_transcription w (subprocess_outcome p) lines of
                   (ev, Some e) \<Rightarrow> (ev, Some e, s\<lparr>transcription := lines\<rparr>)
                 | (ev, None) \<Rightarrow>
                     (case save_to_file a (write_outcome p) lines (files s) of
                        (ev', fs, x) \<Rightarrow> (ev @ ev', x, s\<lparr>transcription := lines, files := fs\<rparr>))))
         else ([], None, s))"

text \<open>
  One iteration of \<open>while True\<close>. The chunks pushed since the previous iteration are on the
  queue before \<open>data_queue.empty()\<close> is asked.
\<close>

definition loop_iteration :: "world \<Rightarrow> args \<Rightarrow> poll \<Rightarrow> state \<Rightarrow> event list \<times> control \<times> state" where
  "loop_iteration w a p s0 =
     (let s = s0\<lparr>data_queue := foldl put (data_queue s0) (pushed p)\<rparr>;
          now = utcnow p
      in if \<not> empty (data_queue s) then
           (case phrase_complete w a (phrase_time s) now of
              Inl e \<Rightarrow> except_clause [] e s
            | Inr boundary \<Rightarrow>
                (case process_audio_queue (data_queue s) of
                   (q, audio_data) \<Rightarrow>
                     (let s1 = s\<lparr>phrase_time := Some now, data_queue := q\<rparr>
                      in case audio_data of
                           None \<Rightarrow> do_sleep p s1
                         | Some d \<Rightarrow>
                             if d = [] then do_sleep p s1
                             else
                               (case convert_audio_to_numpy d of
                                  Inl e \<Rightarrow> except_clause [] e s1
                                | Inr audio_np \<Rightarrow>
                                    (case transcribe_outcome p of
                                       Inl e \<Rightarrow> except_clause [Transcribe audio_np] e s1
                                     | Inr result \<Rightarrow>
                                         (case process_result w a p boundary result s1 of
                                            (ev, None, s2) \<Rightarrow>
                                              (Transcribe audio_np # ev, Continue, s2)
                                          | (ev, Some e, s2) \<Rightarrow>
                                              except_clause (Transcribe audio_np # ev) e s2))))))
         else do_sleep p s)"

text \<open>
  The loop over the iterations that have happened so far: \<open>Continue\<close> after the last one
  says the loop is still running, \<open>Break\<close> that it was left.
\<close>

fun main_loop :: "world \<Rightarrow> args \<Rightarrow> poll list \<Rightarrow> state \<Rightarrow> event list \<times> control \<times> state" where
  "main_loop w a [] s = ([], Continue, s)"
| "main_loop w a (p # ps) s =
     (case loop_iteration w a p s of
        (ev, Continue, s') \<Rightarrow>
          (case main_loop w a ps s' of (ev', c, s'') \<Rightarrow> (ev @ ev', c, s''))
      | (ev, Break, s') \<Rightarrow> (ev, Break, s'))"

text \<open>
  The \<open>finally\<close> block of \<open>main\<close>.
  \<^verbatim>\<open>
    stop_listening(wait_for_stop=False)
    print("\n\nFinal Transcription:")
    for line in transcription:
        if line.strip():
            print(line)
    if args.output_file:
        try:
            with open(args.output_file, 'w', encoding='utf-8') as f:
                f.write('\n'.join(line for line in transcription if line.strip()))
            print(f"\nTranscription saved to: {args.output_file}")
        except IOError as e:
            logging.error(f"Failed to save final transcription: {e}")
    logging.info("Transcription session ended")
  \<close>
\<close>

definition main_finally ::
  "args \<Rightarrow> write_result \<Rightarrow> state \<Rightarrow> event list \<times> py_exception option \<times> state" where
  "main_finally a wr s =
     (let ev = [StopListening, Print (newline @ newline @ lit ''Final Transcription:'') newline]
                @ map (\<lambda>line. Print line newline)
                    (filter (\<lambda>line. strip line \<noteq> []) (transcription s));
          ended = LogInfo (lit ''Transcription session ended'')
      in case output_file a of
           None \<Rightarrow> (ev @ [ended], None, s)
         | Some path \<Rightarrow>
             if path = [] then (ev @ [ended], None, s)
             else
               (case write_transcription wr path (transcription s) (files s) of
                  (ev', fs, None) \<Rightarrow>
                    (ev @ ev' @
                       [Print (newline @ lit ''Transcription saved to: '' @ path) newline, ended],
                     None, s\<lparr>files := fs\<rparr>)
                | (ev', fs, Some (Exc c e)) \<Rightarrow>
                    if catches_OSError c then
                      (ev @ ev' @
                         [LogError (lit ''Failed to save final transcription: '' @ e), ended],
                       None, s\<lparr>files := fs\<rparr>)
                    else (ev @ ev', Some (Exc c e), s\<lparr>files := fs\<rparr>)))"

section \<open>Start-up and the whole program\<close>

text \<open>
  \<open>main\<close> from \<open>validate_arguments(args)\<close> to the start of the loop: validation, the
  initial variables, the microphone, the model, the ambient noise adjustment and the start
  of the background recording. \<open>Return s\<close> is the state in which the loop starts.
\<close>

definition initial_state :: "world \<Rightarrow> state" where
  "initial_state w =
     \<lparr>phrase_time = None, data_queue = [], transcription = [[]], files = initial_files w\<rparr>"

definition start_recording :: "world \<Rightarrow> args \<Rightarrow> event list \<times> state outcome" where
  "start_recording w a =
     (case source_enter w of
        Some (Exc c e) \<Rightarrow>
          if catches_Exception c then
            ([LogError (lit ''Error adjusting for ambient noise: '' @ e)], SysExit 1)
          else ([], Raise (Exc c e))
      | None \<Rightarrow>
          (case adjust_for_ambient_noise w of
             Some (Exc c e) \<Rightarrow>
               if catches_Exception c then
                 ([LogInfo (lit ''Adjusting for ambient noise...''), AdjustForAmbientNoise,
                   LogError (lit ''Error adjusting for ambient noise: '' @ e)], SysExit 1)
               else
                 ([LogInfo (lit ''Adjusting for ambient noise...''), AdjustForAmbientNoise],
                  Raise (Exc c e))
           | None \<Rightarrow>
               ([LogInfo (lit ''Adjusting for ambient noise...''), AdjustForAmbientNoise,
                 LogInfo (lit ''Ambient noise adjustment complete''),
                 ListenInBackground (record_timeout a),
                 Print (lit ''Model loaded. Starting transcription...'') newline,
                 LogInfo (lit ''Real-time transcription started'')],
                Return (initial_state w))))"

definition load_and_record :: "world \<Rightarrow> args \<Rightarrow> event list \<times> state outcome" where
  "load_and_record w a =
     (case load_whisper_model w (model a) (non_english a) of
        (ev, Raise (Exc c e)) \<Rightarrow>
          if c = RuntimeError then (ev @ [LogError e], SysExit 1) else (ev, Raise (Exc c e))
      | (ev, SysExit n) \<Rightarrow> (ev, SysExit n)
      | (ev, Return audio_model) \<Rightarrow>
          (case start_recording w a of (ev', r) \<Rightarrow> (ev @ ev', r)))"

definition main_init :: "world \<Rightarrow> args \<Rightarrow> event list \<times> state outcome" where
  "main_init w a =
     (case validate_arguments a of
        Inl (Exc c e) \<Rightarrow>
          if c = ValueError then
            ([LogError (lit ''Argument validation failed: '' @ e)], SysExit 1)
          else ([], Raise (Exc c e))
      | Inr u \<Rightarrow>
          (case (if sublist (lit ''linux'') (platform w)
                 then get_microphone_source w (default_microphone a)
                 else get_microphone_source w None) of
             (ev, Raise (Exc c e)) \<Rightarrow>
               if c = ValueError \<or> c = RuntimeError then
                 (ev @ [LogError (lit ''Microphone initialization failed: '' @ e)], SysExit 1)
               else (ev, Raise (Exc c e))
           | (ev, SysExit n) \<Rightarrow> (ev, SysExit n)
           | (ev, Return source) \<Rightarrow>
               (case load_and_record w a of (ev', r) \<Rightarrow> (ev @ ev', r))))"

text \<open>
  The whole of \<open>main\<close> after \<open>parse_args\<close>, run over the iterations \<open>polls\<close>; \<open>wr\<close> is
  the outcome of the final write. The process has exited with a status, is still in the
  loop, or has ended with an exception that nothing caught.
\<close>

datatype run_result = Exited int | Running | Uncaught py_exception

definition main :: "world \<Rightarrow> args \<Rightarrow> poll list \<Rightarrow> write_result \<Rightarrow> event list \<times> run_result" where
  "main w a polls wr =
     (case main_init w a of
        (ev, SysExit n) \<Rightarrow> (ev, Exited n)
      | (ev, Raise e) \<Rightarrow> (ev, Uncaught e)
      | (ev, Return s0) \<Rightarrow>
          (case main_loop w a polls s0 of
             (ev', Continue, s) \<Rightarrow> (ev @ ev', Running)
           | (ev', Break, s) \<Rightarrow>
               (case main_finally a wr s of
                  (ev'', None, s') \<Rightarrow> (ev @ ev' @ ev'', Exited 0)
                | (ev'', Some e, s') \<Rightarrow> (ev @ ev' @ ev'', Uncaught e))))"

section \<open>A sample run\<close>

text \<open>
  The defaults of the argument parser, a platform other than Linux on which every library
  call succeeds and \<open>timedelta(seconds=3.0)\<close> is three million microseconds, and an
  iteration that finds one chunk of four bytes and transcribes it as \<open>hi\<close>.
\<close>

definition default_args :: args where
  "default_args =
     \<lparr>model = lit ''medium'', non_english = False, energy_threshold = 1000,
      record_timeout = Finite 2, phrase_timeout = Finite 3, output_file = None,
      show_confidence = False, default_microphone = None\<rparr>"

definition sample_world :: world where
  "sample_world =
     \<lparr>os_name = lit ''posix'', platform = lit ''darwin'', list_microphone_names = [],
      microphone_init = (\<lambda>i. None), load_model = (\<lambda>n. None), source_enter = None,
      adjust_for_ambient_noise = None,
      timedelta = (\<lambda>x. if x = Finite 3 then Inr 3000000 else Inl (Exc OverflowError [])),
      format_confidence = (\<lambda>ps. lit ''100.0''),
      initial_files = (\<lambda>path. None)\<rparr>"

definition sample_poll :: poll where
  "sample_poll =
     \<lparr>pushed = [''AABB''], utcnow = 5000000,
      transcribe_outcome = Inr \<lparr>result_text = lit '' hi'', result_segments = None\<rparr>,
      subprocess_outcome = None, write_outcome = Written, sleep_outcome = None\<rparr>"


text \<open>The names under which a trace calls \<open>whisper.load_model\<close>.\<close>

fun loaded :: "event list \<Rightarrow> pystr list" where
  "loaded [] = []"
| "loaded (LoadModel m # evs) = m # loaded evs"
| "loaded (ev # evs) = loaded evs"

section \<open>Draining the queue\<close>

lemma drain_loop_eq: "drain_loop q l = ([], l @ q)"
proof (induction q arbitrary: l)
  case Nil
  show ?case by (subst drain_loop.simps) (simp add: empty_def)
next
  case (Cons x q)
  have "drain_loop (x # q) l = drain_loop q (l @ [x])"
    by (subst drain_loop.simps) (simp add: empty_def get_nowait_def)
  then show ?case by (simp add: Cons.IH)
qed

lemma process_audio_queue_eq:
  "process_audio_queue q = ([], if q = [] then None else Some (concat q))"
  by (simp add: process_audio_queue_def drain_loop_eq bytes_join_def)

lemma foldl_put: "foldl put q xs = q @ xs"
  by (induction xs arbitrary: q) (simp_all add: put_def)

text \<open>
  Claim C2. One call of \<open>process_audio_queue\<close> on a queue holding the chunks \<open>q\<close> (oldest
  first, while the producer does not run) leaves the queue empty; it returns the
  concatenation of the chunks in push order when there is at least one chunk, and \<open>None\<close>
  (not the empty byte string) when the queue is empty. Pushing \<open>b"AA"\<close> then \<open>b"BB"\<close> and
  draining yields \<open>b"AABB"\<close>, and a second drain of the queue the first one left yields
  \<open>None\<close>.
\<close>

theorem process_audio_queue_fifo:
  "fst (process_audio_queue q) = [] \<and>
   snd (process_audio_queue q) = (if q = [] then None else Some (concat q)) \<and>
   snd (process_audio_queue (foldl put [] chunks)) =
     (if chunks = [] then None else Some (concat chunks)) \<and>
   snd (process_audio_queue []) = None \<and>
   snd (process_audio_queue []) \<noteq> Some [] \<and>
   process_audio_queue (put (put [] ''AA'') ''BB'') = ([], Some ''AABB'') \<and>
   process_audio_queue (fst (process_audio_queue (put (put [] ''AA'') ''BB''))) = ([], None)"
  by (simp add: process_audio_queue_eq put_def foldl_put)

text \<open>
  Claim C10. \<open>process_audio_queue\<close> returns \<open>None\<close> exactly when its loop drained zero chunks
  (the drained list is the whole queue); a queue of one or more chunks that are all the
  empty byte string gives the empty byte string \<open>b""\<close>, not \<open>None\<close>.
\<close>

theorem process_audio_queue_none_iff:
  "(snd (process_audio_queue q) = None) = (length (snd (drain_loop q [])) = 0) \<and>
   snd (drain_loop q []) = q \<and>
   snd (process_audio_queue (replicate (Suc n) [])) = Some []"
  by (simp add: process_audio_queue_eq drain_loop_eq)

section \<open>Validation and start-up\<close>

lemmas sample_defs =
  sample_world_def default_args_def sample_poll_def initial_state_def lit_def newline_def

text \<open>
  Claim C3. \<open>validate_arguments\<close> raises exactly when the energy threshold is negative or
  the record timeout is \<open>\<le> 0\<close> or the phrase timeout is \<open>\<le> 0\<close>, and returns normally
  otherwise. With \<open>energy_threshold = -1\<close> the error is a \<open>ValueError\<close> whose message is
  \<open>Energy threshold must be non-negative\<close>; with \<open>record_timeout = 0\<close> and an energy
  threshold that passes the first check it is a \<open>ValueError\<close> whose message is
  \<open>Record timeout must be positive\<close>.
\<close>

theorem validate_arguments_raises_iff:
  "((\<exists>e. validate_arguments a = Inl e) =
      (energy_threshold a < 0 \<or> float_le_zero (record_timeout a) \<or>
       float_le_zero (phrase_timeout a))) \<and>
   ((validate_arguments a = Inr ()) =
      (\<not> (energy_threshold a < 0 \<or> float_le_zero (record_timeout a) \<or>
          float_le_zero (phrase_timeout a)))) \<and>
   validate_arguments (a\<lparr>energy_threshold := - 1\<rparr>) =
      Inl (Exc ValueError (lit ''Energy threshold must be non-negative'')) \<and>
   (0 \<le> energy_threshold a \<longrightarrow>
      validate_arguments (a\<lparr>record_timeout := Finite 0\<rparr>) =
        Inl (Exc ValueError (lit ''Record timeout must be positive'')))"
  by (simp add: validate_arguments_def)

theorem validate_arguments_raises_iff_witness:
  "0 \<le> energy_threshold default_args \<and>
   validate_arguments default_args = Inr () \<and>
   validate_arguments (default_args\<lparr>record_timeout := Finite 0\<rparr>) =
     Inl (Exc ValueError (lit ''Record timeout must be positive''))"
  using validate_arguments_raises_iff [of default_args]
  by (simp add: default_args_def)

text \<open>
  Claim C4. When the energy threshold is negative or a timeout is \<open>\<le> 0\<close>, the whole run
  of \<open>main\<close> consists of one error log, \<open>Argument validation failed: ...\<close>, and the exit
  with status 1: no microphone is opened, no model is loaded and the background recording
  is not started, whatever the platform and the libraries would have done.
\<close>

theorem invalid_configuration_exits_first:
  assumes "energy_threshold a < 0 \<or> float_le_zero (record_timeout a) \<or>
           float_le_zero (phrase_timeout a)"
  shows "\<exists>msg. validate_arguments a = Inl (Exc ValueError msg) \<and>
           main w a polls wr = ([LogError (lit ''Argument validation failed: '' @ msg)], Exited 1) \<and>
           OpenMicrophone i \<notin> set (fst (main w a polls wr)) \<and>
           LoadModel m \<notin> set (fst (main w a polls wr)) \<and>
           ListenInBackground t \<notin> set (fst (main w a polls wr))"
  using assms by (auto simp: validate_arguments_def main_def main_init_def)

theorem invalid_configuration_exits_first_witness:
  "energy_threshold (default_args\<lparr>energy_threshold := - 1\<rparr>) < 0 \<and>
   main sample_world (default_args\<lparr>energy_threshold := - 1\<rparr>) [sample_poll] Written =
     ([LogError (lit ''Argument validation failed: Energy threshold must be non-negative'')],
      Exited 1)"
  using invalid_configuration_exits_first
    [of "default_args\<lparr>energy_threshold := - 1\<rparr>" sample_world "[sample_poll]" Written]
  by (auto simp: default_args_def validate_arguments_def lit_def)

text \<open>
  Claim C9. \<open>load_whisper_model\<close> calls \<open>whisper.load_model\<close> once, with the name
  followed by \<open>.en\<close> when the name is not \<open>large\<close> and \<open>non_english\<close> is false, and
  with the name unchanged otherwise; that model is what it returns when the load succeeds.
\<close>

theorem load_whisper_model_name:
  "loaded (fst (load_whisper_model w model_name ne)) =
     [if model_name \<noteq> lit ''large'' \<and> \<not> ne then model_name @ lit ''.en'' else model_name] \<and>
   (load_model w (if model_name \<noteq> lit ''large'' \<and> \<not> ne then model_name @ lit ''.en'' else model_name) = None) =
     (snd (load_whisper_model w model_name ne) =
        Return (if model_name \<noteq> lit ''large'' \<and> \<not> ne then model_name @ lit ''.en'' else model_name)) \<and>
   loaded (fst (load_whisper_model w (lit ''medium'') False)) = [lit ''medium.en''] \<and>
   loaded (fst (load_whisper_model w (lit ''medium'') True)) = [lit ''medium''] \<and>
   loaded (fst (load_whisper_model w (lit ''large'') False)) = [lit ''large'']"
  by (auto simp: load_whisper_model_def Let_def lit_def split: option.splits py_exception.splits)

section \<open>The console\<close>



text \<open>
  What reaches standard output in the fallback is the argument followed by the line end of
  that one call: 51 newline characters.
\<close>

lemma clear_console_fallback_stdout:
  "concat (map stdout_of (fst (clear_console w (Some (Exc FileNotFoundError e))))) =
     replicate 51 10"
proof -
  have "concat (replicate CONSOLE_CLEAR_FALLBACK_LINES newline) @ newline = replicate 51 10"
    unfolding CONSOLE_CLEAR_FALLBACK_LINES_def newline_def by code_simp
  then show ?thesis by (simp add: clear_console_def Let_def)
qed

section \<open>The phrase boundary and the transcript\<close>

lemma except_clause_state: "snd (snd (except_clause ev x s)) = s"
  by (cases x) (simp add: except_clause_def)

lemma do_sleep_state: "snd (snd (do_sleep p s)) = s"
  by (simp add: do_sleep_def except_clause_state split: option.splits)

lemma loop_iteration_transcribe:
  assumes "data_queue s @ pushed p \<noteq> []"
    and "phrase_complete w a (phrase_time s) (utcnow p) = Inr b"
    and "concat (data_queue s @ pushed p) \<noteq> []"
    and "convert_audio_to_numpy (concat (data_queue s @ pushed p)) = Inr audio_np"
  shows "loop_iteration w a p s =
     (case transcribe_outcome p of
        Inl e \<Rightarrow> except_clause [Transcribe audio_np] e (s\<lparr>phrase_time := Some (utcnow p), data_queue := []\<rparr>)
      | Inr result \<Rightarrow>
          (case process_result w a p b result (s\<lparr>phrase_time := Some (utcnow p), data_queue := []\<rparr>) of
             (ev, None, s2) \<Rightarrow> (Transcribe audio_np # ev, Continue, s2)
           | (ev, Some e, s2) \<Rightarrow> except_clause (Transcribe audio_np # ev) e s2))"
  using assms
  by (simp add: loop_iteration_def Let_def foldl_put empty_def process_audio_queue_eq
           del: concat_eq_Nil_conv append_is_Nil_conv)

lemma update_transcription_cases:
  "update_transcription b lines t = Inr lines' \<Longrightarrow>
   lines' = (if b then lines @ [t] else butlast lines @ [t]) \<and> (b \<or> lines \<noteq> [])"
  by (cases lines rule: rev_cases) (auto simp: update_transcription_def split: if_splits)

lemma process_result_transcription:
  "transcription (snd (snd (process_result w a p b result s))) =
     (if strip (result_text result) = [] then transcription s
      else case update_transcription b (transcription s) (format_text w a result (strip (result_text result))) of
             Inl e \<Rightarrow> transcription s | Inr lines \<Rightarrow> lines)"
  by (simp add: process_result_def Let_def split: sum.splits prod.splits option.splits)

text \<open>
  Claim C1, as the code has it. When \<open>timedelta(seconds=args.phrase_timeout)\<close> is the
  duration \<open>gap\<close>, the decision is a function of the previous timestamp, the current one
  and \<open>gap\<close>: a boundary is declared exactly when the previous timestamp is present and
  current minus previous exceeds \<open>gap\<close>; an absent previous timestamp gives no boundary.
  In an iteration that finds data on the queue, drains a non-empty even number of bytes
  and gets a non-blank text from the transcription, the text is appended as a new line on
  a boundary, and replaces the last line otherwise.
\<close>

theorem phrase_boundary_decision:
  assumes "timedelta w (phrase_timeout a) = Inr gap"
    and "data_queue s @ pushed p \<noteq> []"
    and "concat (data_queue s @ pushed p) \<noteq> []"
    and "even (length (concat (data_queue s @ pushed p)))"
    and "transcribe_outcome p = Inr result"
    and "strip (result_text result) \<noteq> []"
    and "transcription s \<noteq> []"
  shows "phrase_complete w a prev now = Inr (\<exists>pt. prev = Some pt \<and> now - pt > gap) \<and>
         transcription (snd (snd (loop_iteration w a p s))) =
           (if \<exists>pt. phrase_time s = Some pt \<and> utcnow p - pt > gap
            then transcription s @ [format_text w a result (strip (result_text result))]
            else butlast (transcription s) @ [format_text w a result (strip (result_text result))])"
proof -
  have dec: "phrase_complete w a prev' now' = Inr (\<exists>pt. prev' = Some pt \<and> now' - pt > gap)"
    for prev' now'
    using assms(1) by (cases prev') (simp_all add: phrase_complete_def)
  obtain audio_np where np: "convert_audio_to_numpy (concat (data_queue s @ pushed p)) = Inr audio_np"
    using assms(4) by (simp add: convert_audio_to_numpy_def)
  let ?b = "\<exists>pt. phrase_time s = Some pt \<and> utcnow p - pt > gap"
  let ?s1 = "s\<lparr>phrase_time := Some (utcnow p), data_queue := []\<rparr>"
  let ?t = "format_text w a result (strip (result_text result))"
  have it: "loop_iteration w a p s =
      (case process_result w a p ?b result ?s1 of
         (ev, None, s2) \<Rightarrow> (Transcribe audio_np # ev, Continue, s2)
       | (ev, Some e, s2) \<Rightarrow> except_clause (Transcribe audio_np # ev) e s2)"
    using loop_iteration_transcribe [OF assms(2) dec assms(3) np] assms(5) by simp
  have "transcription (snd (snd (loop_iteration w a p s))) =
        transcription (snd (snd (process_result w a p ?b result ?s1)))"
    unfolding it
    by (cases "process_result w a p ?b result ?s1" rule: prod_cases3)
       (simp add: except_clause_state split: option.splits)
  also have "\<dots> = (case update_transcription ?b (transcription s) ?t of
                       Inl e \<Rightarrow> transcription s | Inr lines \<Rightarrow> lines)"
    using assms(6) by (simp add: process_result_transcription split: sum.splits)
  also have "\<dots> = (if ?b then transcription s @ [?t] else butlast (transcription s) @ [?t])"
    using assms(7)
    by (cases "transcription s" rule: rev_cases) (simp_all add: update_transcription_def)
  finally show ?thesis using dec by simp
qed

theorem phrase_boundary_decision_witness:
  "phrase_complete sample_world default_args (Some 1000000) 5000000 = Inr True \<and>
   phrase_complete sample_world default_args (Some 2000000) 5000000 = Inr False \<and>
   transcription (snd (snd (loop_iteration sample_world default_args sample_poll
      ((initial_state sample_world)\<lparr>phrase_time := Some 1000000\<rparr>)))) = [[], lit ''hi'']"
  using phrase_boundary_decision [of sample_world default_args 3000000
      "(initial_state sample_world)\<lparr>phrase_time := Some 1000000\<rparr>" sample_poll
      "\<lparr>result_text = lit '' hi'', result_segments = None\<rparr>" "Some 1000000" 5000000]
    phrase_boundary_decision [of sample_world default_args 3000000
      "(initial_state sample_world)\<lparr>phrase_time := Some 1000000\<rparr>" sample_poll
      "\<lparr>result_text = lit '' hi'', result_segments = None\<rparr>" "Some 2000000" 5000000]
  by (simp add: sample_defs strip_def isspace_def format_text_def)

text \<open>
  The claim as the specification states it declares a boundary when the previous timestamp
  is absent. On the first poll of a run the previous timestamp is \<open>None\<close>; the code decides
  \<open>False\<close>, and the text replaces the placeholder line instead of following it.
\<close>

theorem phrase_boundary_first_poll_counterexample:
  "phrase_complete sample_world default_args None 5000000 = Inr False \<and>
   transcription (initial_state sample_world) = [[]] \<and>
   transcription (snd (snd (loop_iteration sample_world default_args sample_poll
      (initial_state sample_world)))) = [lit ''hi''] \<and>
   transcription (snd (snd (loop_iteration sample_world default_args sample_poll
      (initial_state sample_world)))) \<noteq> [[], lit ''hi'']"
  by (simp add: sample_defs loop_iteration_def Let_def put_def empty_def
     phrase_complete_def process_audio_queue_eq convert_audio_to_numpy_def process_result_def
     strip_def isspace_def update_transcription_def format_text_def display_transcription_def
     clear_console_def save_to_file_def)

lemma process_result_steps:
  "transcription (snd (snd (process_result w a p b result s))) = transcription s \<or>
   (\<exists>t. transcription (snd (snd (process_result w a p b result s))) = transcription s @ [t]) \<or>
   (transcription s \<noteq> [] \<and>
    (\<exists>t. transcription (snd (snd (process_result w a p b result s))) = butlast (transcription s) @ [t]))"
proof (cases "strip (result_text result) = []")
  case True
  then show ?thesis by (simp add: process_result_transcription)
next
  case False
  let ?t = "format_text w a result (strip (result_text result))"
  show ?thesis
  proof (cases "update_transcription b (transcription s) ?t")
    case (Inl e)
    with False show ?thesis by (simp add: process_result_transcription)
  next
    case (Inr lines')
    from update_transcription_cases [OF Inr] Inr False show ?thesis
      by (auto simp: process_result_transcription)
  qed
qed

lemma loop_iteration_state_cases:
  "snd (snd (loop_iteration w a p s)) = s\<lparr>data_queue := data_queue s @ pushed p\<rparr> \<or>
   snd (snd (loop_iteration w a p s)) = s\<lparr>phrase_time := Some (utcnow p), data_queue := []\<rparr> \<or>
   (\<exists>b result. snd (snd (loop_iteration w a p s)) =
      snd (snd (process_result w a p b result (s\<lparr>phrase_time := Some (utcnow p), data_queue := []\<rparr>))))"
proof -
  have *: "snd (snd (case x of (ev, None, s2) \<Rightarrow> (f ev, Continue, s2)
                       | (ev, Some e, s2) \<Rightarrow> except_clause (g ev) e s2)) = snd (snd x)"
    for x :: "event list \<times> py_exception option \<times> state" and f g
    by (cases x rule: prod_cases3) (simp add: except_clause_state split: option.splits)
  show ?thesis
    unfolding loop_iteration_def Let_def foldl_put process_audio_queue_eq
    by (auto simp: except_clause_state do_sleep_state * split: sum.splits option.splits)
qed

lemma loop_iteration_steps:
  "transcription (snd (snd (loop_iteration w a p s))) = transcription s \<or>
   (\<exists>t. transcription (snd (snd (loop_iteration w a p s))) = transcription s @ [t]) \<or>
   (transcription s \<noteq> [] \<and>
    (\<exists>t. transcription (snd (snd (loop_iteration w a p s))) = butlast (transcription s) @ [t]))"
proof -
  let ?s1 = "s\<lparr>phrase_time := Some (utcnow p), data_queue := []\<rparr>"
  have s1: "transcription ?s1 = transcription s" by simp
  from loop_iteration_state_cases [of w a p s] show ?thesis
  proof (elim disjE exE)
    fix b result
    assume "snd (snd (loop_iteration w a p s)) = snd (snd (process_result w a p b result ?s1))"
    then show ?thesis using process_result_steps [of w a p b result ?s1] by (simp only: s1)
  qed simp_all
qed

lemma loop_iteration_length:
  "length (transcription s) \<le> length (transcription (snd (snd (loop_iteration w a p s))))"
  using loop_iteration_steps [of w a p s] by (cases "transcription s" rule: rev_cases) auto

lemma main_loop_length:
  "length (transcription s) \<le> length (transcription (snd (snd (main_loop w a polls s))))"
proof (induction polls arbitrary: s)
  case Nil
  show ?case by simp
next
  case (Cons p ps)
  obtain ev c s' where it: "loop_iteration w a p s = (ev, c, s')"
    by (cases "loop_iteration w a p s" rule: prod_cases3)
  have le: "length (transcription s) \<le> length (transcription s')"
    using loop_iteration_length [of s w a p] it by simp
  show ?case
  proof (cases c)
    case Continue
    obtain ev' c' s'' where ml: "main_loop w a ps s' = (ev', c', s'')"
      by (cases "main_loop w a ps s'" rule: prod_cases3)
    have "length (transcription s') \<le> length (transcription s'')"
      using Cons.IH [of s'] ml by simp
    with le show ?thesis using it Continue ml by simp
  next
    case Break
    with le it show ?thesis by simp
  qed
qed

text \<open>
  Claim C6. The transcript starts as the single empty line; an iteration of the loop leaves
  it unchanged, appends one line, or replaces its last line; its length never decreases,
  over one iteration or any number of them, and after any number of iterations from the
  initial state it is not empty.
\<close>

theorem transcription_never_empty:
  "transcription (initial_state w) = [[]] \<and>
   (transcription (snd (snd (loop_iteration w a p s))) = transcription s \<or>
    (\<exists>t. transcription (snd (snd (loop_iteration w a p s))) = transcription s @ [t]) \<or>
    (transcription s \<noteq> [] \<and>
     (\<exists>t. transcription (snd (snd (loop_iteration w a p s))) = butlast (transcription s) @ [t]))) \<and>
   length (transcription s) \<le> length (transcription (snd (snd (loop_iteration w a p s)))) \<and>
   length (transcription s) \<le> length (transcription (snd (snd (main_loop w a polls s)))) \<and>
   transcription (snd (snd (main_loop w a polls (initial_state w)))) \<noteq> []"
proof -
  have init: "transcription (initial_state w) = [[]]"
    by (simp add: initial_state_def)
  have "length (transcription (initial_state w)) \<le>
        length (transcription (snd (snd (main_loop w a polls (initial_state w)))))"
    by (rule main_loop_length)
  then have "transcription (snd (snd (main_loop w a polls (initial_state w)))) \<noteq> []"
    by (auto simp: init)
  then show ?thesis
    using init loop_iteration_steps [of w a p s] loop_iteration_length [of s w a p]
      main_loop_length [of s w a polls]
    by blast
qed

text \<open>
  Claim C7. In an iteration that reaches the transcription call (data on the queue, a
  boundary decision, a non-empty even number of drained bytes) and in which that call
  raises an exception of class \<open>Exception\<close>, the iteration logs
  \<open>Error during transcription: ...\<close> and ends with \<open>continue\<close>; the transcript and the
  files are as before, the drained chunks are gone from the queue, so the loop goes on
  with the later iterations and the next one, if nothing new was pushed, only sleeps.
\<close>

theorem transcription_error_absorbed:
  assumes "data_queue s @ pushed p \<noteq> []"
    and "phrase_complete w a (phrase_time s) (utcnow p) = Inr b"
    and "concat (data_queue s @ pushed p) \<noteq> []"
    and "convert_audio_to_numpy (concat (data_queue s @ pushed p)) = Inr audio_np"
    and "transcribe_outcome p = Inl (Exc c e)"
    and "catches_Exception c"
  shows "loop_iteration w a p s =
           ([Transcribe audio_np, LogError (lit ''Error during transcription: '' @ e)],
            Continue, s\<lparr>phrase_time := Some (utcnow p), data_queue := []\<rparr>) \<and>
         transcription (snd (snd (loop_iteration w a p s))) = transcription s \<and>
         files (snd (snd (loop_iteration w a p s))) = files s \<and>
         data_queue (snd (snd (loop_iteration w a p s))) = [] \<and>
         main_loop w a (p # ps) s =
           (case main_loop w a ps (s\<lparr>phrase_time := Some (utcnow p), data_queue := []\<rparr>) of
              (ev', c', s'') \<Rightarrow>
                ([Transcribe audio_np, LogError (lit ''Error during transcription: '' @ e)] @ ev',
                 c', s'')) \<and>
         loop_iteration w a (p'\<lparr>pushed := []\<rparr>) (snd (snd (loop_iteration w a p s))) =
           do_sleep (p'\<lparr>pushed := []\<rparr>) (snd (snd (loop_iteration w a p s)))"
proof -
  let ?s1 = "s\<lparr>phrase_time := Some (utcnow p), data_queue := []\<rparr>"
  have it: "loop_iteration w a p s =
           ([Transcribe audio_np, LogError (lit ''Error during transcription: '' @ e)],
            Continue, ?s1)"
    using loop_iteration_transcribe [OF assms(1-4)] assms(5,6)
    by (simp add: except_clause_def catches_Exception_def)
  have nxt: "loop_iteration w a (p'\<lparr>pushed := []\<rparr>) ?s1 = do_sleep (p'\<lparr>pushed := []\<rparr>) ?s1"
    by (simp add: loop_iteration_def Let_def empty_def)
  show ?thesis
    by (simp add: it nxt)
qed

theorem transcription_error_absorbed_witness:
  "loop_iteration sample_world default_args
      (sample_poll\<lparr>transcribe_outcome := Inl (Exc RuntimeError (lit ''out of memory''))\<rparr>)
      (initial_state sample_world) =
     ([Transcribe [16705 / 32768, 16962 / 32768],
       LogError (lit ''Error during transcription: out of memory'')],
      Continue, (initial_state sample_world)\<lparr>phrase_time := Some 5000000, data_queue := []\<rparr>)"
  using transcription_error_absorbed [of "initial_state sample_world"
      "sample_poll\<lparr>transcribe_outcome := Inl (Exc RuntimeError (lit ''out of memory''))\<rparr>"
      sample_world default_args False "[16705 / 32768, 16962 / 32768]" RuntimeError
      "lit ''out of memory''"]
  by (simp add: sample_defs phrase_complete_def convert_audio_to_numpy_def
      AUDIO_NORMALIZATION_FACTOR_def catches_Exception_def)

section \<open>The file sink\<close>

lemma write_transcription_Written:
  "write_transcription Written path lines fs =
     ([WriteFile path (join newline (filter (\<lambda>line. strip line \<noteq> []) lines))],
      fs(path \<mapsto> join newline (filter (\<lambda>line. strip line \<noteq> []) lines)), None)"
  by (simp add: write_transcription_def Let_def)

lemma display_transcription_returns:
  "snd (display_transcription w r lines) = snd (clear_console w r)"
  by (cases "clear_console w r") (simp add: display_transcription_def split: option.splits)

lemma strip_hello_world:
  "filter (\<lambda>line. strip line \<noteq> []) [[], lit ''hello'', lit ''world''] =
     [lit ''hello'', lit ''world'']"
  by (simp add: strip_def lit_def isspace_def)

text \<open>
  Claim C5. With an output file configured and a write that succeeds, the file sink of the
  loop and the one of the \<open>finally\<close> block both set the contents of the output file to the
  lines of the transcript that are not blank, joined by newline characters, whatever the
  file held before. For the transcript \<open>["", "hello", "world"]\<close> the contents are
  \<open>"hello\nworld"\<close> in both.
\<close>

theorem file_sink_overwrites:
  assumes "output_file a = Some path" and "path \<noteq> []"
    and "write_outcome p = Written"
    and "snd (clear_console w (subprocess_outcome p)) = None"
    and "strip (result_text result) \<noteq> []"
    and "transcription s \<noteq> []"
  shows "save_to_file a Written lines fs =
           ([WriteFile path (join newline (filter (\<lambda>line. strip line \<noteq> []) lines))],
            fs(path \<mapsto> join newline (filter (\<lambda>line. strip line \<noteq> []) lines)), None) \<and>
         files (snd (snd (process_result w a p b result s))) path =
           Some (join newline (filter (\<lambda>line. strip line \<noteq> [])
                   (transcription (snd (snd (process_result w a p b result s)))))) \<and>
         files (snd (snd (main_finally a Written s))) =
           (files s)(path \<mapsto> join newline (filter (\<lambda>line. strip line \<noteq> []) (transcription s))) \<and>
         fst (snd (save_to_file a Written [[], lit ''hello'', lit ''world''] fs)) path =
           Some (lit ''hello'' @ [10] @ lit ''world'') \<and>
         files (snd (snd (main_finally a Written (s\<lparr>transcription := [[], lit ''hello'', lit ''world'']\<rparr>)))) path =
           Some (lit ''hello'' @ [10] @ lit ''world'')"
proof -
  have save: "save_to_file a Written ls fs' =
           ([WriteFile path (join newline (filter (\<lambda>line. strip line \<noteq> []) ls))],
            fs'(path \<mapsto> join newline (filter (\<lambda>line. strip line \<noteq> []) ls)), None)" for ls fs'
    using assms(1,2) by (simp add: save_to_file_def write_transcription_Written)
  have fin: "files (snd (snd (main_finally a Written s'))) =
           (files s')(path \<mapsto> join newline (filter (\<lambda>line. strip line \<noteq> []) (transcription s')))"
    for s'
    using assms(1,2) by (simp add: main_finally_def Let_def write_transcription_Written)
  have "\<exists>lines'. update_transcription b (transcription s)
      (format_text w a result (strip (result_text result))) = Inr lines'"
    using assms(6) by (simp add: update_transcription_def)
  then obtain lines' where up:
    "update_transcription b (transcription s) (format_text w a result (strip (result_text result))) = Inr lines'"
    by blast
  obtain ev where disp: "display_transcription w (subprocess_outcome p) lines' = (ev, None)"
    using assms(4) display_transcription_returns [of w "subprocess_outcome p" lines']
    by (cases "display_transcription w (subprocess_outcome p) lines'") simp
  have pr: "snd (snd (process_result w a p b result s)) =
      s\<lparr>transcription := lines',
        files := (files s)(path \<mapsto> join newline (filter (\<lambda>line. strip line \<noteq> []) lines'))\<rparr>"
    using assms(3,5) up disp by (simp add: process_result_def Let_def save)
  have ex: "join newline (filter (\<lambda>line. strip line \<noteq> []) [[], lit ''hello'', lit ''world'']) =
      lit ''hello'' @ [10] @ lit ''world''"
    by (simp only: strip_hello_world) (simp add: newline_def)
  have ex_save: "fst (snd (save_to_file a Written [[], lit ''hello'', lit ''world''] fs)) path =
      Some (lit ''hello'' @ [10] @ lit ''world'')"
    by (simp only: save ex) simp
  have ex_fin: "files (snd (snd (main_finally a Written
        (s\<lparr>transcription := [[], lit ''hello'', lit ''world'']\<rparr>)))) path =
      Some (lit ''hello'' @ [10] @ lit ''world'')"
  proof -
    have tr: "transcription (s\<lparr>transcription := ls\<rparr>) = ls" for ls :: "pystr list"
      by simp
    show ?thesis by (simp only: fin tr ex) simp
  qed
  have upd: "files (snd (snd (process_result w a p b result s))) path =
      Some (join newline (filter (\<lambda>line. strip line \<noteq> [])
              (transcription (snd (snd (process_result w a p b result s))))))"
    by (simp only: pr) simp
  from save [of lines fs] upd fin [of s] ex_save ex_fin show ?thesis
    by (intro conjI)
qed

theorem file_sink_overwrites_witness:
  "files (snd (snd (process_result sample_world (default_args\<lparr>output_file := Some (lit ''out.txt'')\<rparr>)
      sample_poll True \<lparr>result_text = lit ''world'', result_segments = None\<rparr>
      ((initial_state sample_world)\<lparr>transcription := [[], lit ''hello''],
          files := (\<lambda>f. Some (lit ''old text''))\<rparr>)))) (lit ''out.txt'') =
     Some (lit ''hello'' @ [10] @ lit ''world'') \<and>
   fst (snd (save_to_file (default_args\<lparr>output_file := Some (lit ''out.txt'')\<rparr>) Written
      [[], lit ''hello'', lit ''world''] (\<lambda>f. Some (lit ''old text'')))) (lit ''out.txt'') =
     Some (lit ''hello'' @ [10] @ lit ''world'')"
  using file_sink_overwrites [of "default_args\<lparr>output_file := Some (lit ''out.txt'')\<rparr>"
      "lit ''out.txt''" sample_poll sample_world
      "\<lparr>result_text = lit ''world'', result_segments = None\<rparr>"
      "(initial_state sample_world)\<lparr>transcription := [[], lit ''hello''],
          files := (\<lambda>f. Some (lit ''old text''))\<rparr>" "[[], lit ''hello'', lit ''world'']"
      "(\<lambda>f. Some (lit ''old text''))" True]
  by (simp add: sample_defs strip_def isspace_def clear_console_def process_result_def
      update_transcription_def format_text_def display_transcription_def save_to_file_def
      write_transcription_def Let_def)

end
